theory Spec2Isabelle
  imports Main "HOL-Library.Word"
begin

unbundle bit_operations_syntax

section \<open>Data model of firmware/ethereum.c\<close>

type_synonym u8 = "8 word"
type_synonym u32 = "32 word"

text \<open>
  A protobuf bytes field is a struct of a byte count and a fixed-capacity array:
  \<^verbatim>\<open>struct { size_t size; uint8_t bytes[N]; }\<close>.  On the 32-bit target
  \<^verbatim>\<open>size_t\<close> is a 32-bit unsigned integer.  The field names carry a prefix because
  \<open>size\<close> is a constant of HOL.  The array type is declared outside this file: in C
  it holds at least one byte and \<open>size\<close> does not exceed its capacity; statements
  that depend on the bytes read say so in their hypotheses.
\<close>

record pb_bytes =
  b_size :: u32
  b_bytes :: "u8 list"

text \<open>The fields of \<^verbatim>\<open>EthereumSignTx\<close> that \<^verbatim>\<open>ethereum_signing_init\<close> reads.
  The field \<^verbatim>\<open>value\<close> is named \<open>value_f\<close> here.\<close>

record EthereumSignTx =
  has_nonce :: bool
  nonce :: pb_bytes
  has_gas_price :: bool
  gas_price :: pb_bytes
  has_gas_limit :: bool
  gas_limit :: pb_bytes
  has_to :: bool
  to :: pb_bytes
  has_value :: bool
  value_f :: pb_bytes
  has_data_initial_chunk :: bool
  data_initial_chunk :: pb_bytes
  has_data_length :: bool
  data_length :: u32

record EthereumTxAck =
  has_data_chunk :: bool
  data_chunk :: pb_bytes

text \<open>\<^verbatim>\<open>EthereumTxRequest\<close>, the staged response; its fields are prefixed with \<open>r_\<close>
  to keep them apart from the request's fields of the same name.\<close>

record EthereumTxRequest =
  r_has_data_length :: bool
  r_data_length :: u32
  r_has_signature_v :: bool
  r_signature_v :: u32
  r_has_signature_r :: bool
  r_signature_r :: pb_bytes
  r_has_signature_s :: bool
  r_signature_s :: pb_bytes

record HDNode =
  private_key :: "u8 list"

datatype FailureType =
    Failure_UnexpectedMessage
  | Failure_ActionCancelled
  | Failure_Other

text \<open>
  Calls to the collaborators outside this file, in the order they are made:
  \<^verbatim>\<open>fsm_sendFailure\<close>, \<^verbatim>\<open>msg_write\<close> of the staged response,
  \<^verbatim>\<open>layoutHome\<close>, \<^verbatim>\<open>layoutProgress\<close>, \<^verbatim>\<open>layoutEthereumConfirmTx\<close>
  (its arguments: recipient or NULL, value or NULL, value length) and
  \<^verbatim>\<open>protectButton\<close>.
\<close>

datatype event =
    Failure FailureType string
  | MsgWrite EthereumTxRequest
  | LayoutHome
  | LayoutProgress u32
  | ConfirmTx "u8 list option" "u8 list option" u32
  | ButtonRequest

text \<open>
  The file's static variables, and the trace \<open>out\<close> of collaborator calls.  The
  SHA3 context is the sequence of bytes absorbed since \<^verbatim>\<open>sha3_256_Init\<close>.
\<close>

record state =
  signing :: bool
  data_total :: u32
  data_left :: u32
  resp :: EthereumTxRequest
  hash :: "u8 list"
  sig :: "u8 list"
  privkey :: "u8 list"
  keccak_ctx :: "u8 list"
  out :: "event list"

section \<open>RLP encoder\<close>

text \<open>\<^verbatim>\<open>hash_data(buf, size)\<close>: \<^verbatim>\<open>sha3_Update\<close> absorbs the first \<open>size\<close> bytes of
  \<open>buf\<close>.  A \<open>size\<close> beyond the array is a read out of bounds in C; the model
  then absorbs the bytes the array has.\<close>

definition hash_data :: "u8 list \<Rightarrow> u32 \<Rightarrow> state \<Rightarrow> state" where
  "hash_data buf sz s = s\<lparr>keccak_ctx := keccak_ctx s @ take (unat sz) buf\<rparr>"

text \<open>\<^verbatim>\<open>hash_rlp_length\<close> fills a local four-byte buffer and hashes its first
  bytes; an assignment to \<^verbatim>\<open>uint8_t\<close> keeps the low eight bits.\<close>

definition hash_rlp_length :: "u32 \<Rightarrow> u8 \<Rightarrow> state \<Rightarrow> state" where
  "hash_rlp_length len firstbyte s =
     (if len = 1 \<and> firstbyte = 0x00 then hash_data [0x80] 1 s
      else if len = 1 \<and> firstbyte \<le> 0x7f then hash_data [firstbyte] 1 s
      else if len \<le> 55 then hash_data [ucast (0x80 + len)] 1 s
      else if len \<le> 0xff then hash_data [0xb7 + 1, ucast len] 2 s
      else if len \<le> 0xffff then
        hash_data [0xb7 + 2, ucast (drop_bit 8 len), ucast (len AND 0xff)] 3 s
      else
        hash_data [0xb7 + 3, ucast (drop_bit 16 len), ucast (drop_bit 8 len),
                   ucast (len AND 0xff)] 4 s)"

definition hash_rlp_list_length :: "u32 \<Rightarrow> state \<Rightarrow> state" where
  "hash_rlp_list_length len s =
     (if len \<le> 55 then hash_data [ucast (0xc0 + len)] 1 s
      else if len \<le> 0xff then hash_data [0xf7 + 1, ucast len] 2 s
      else if len \<le> 0xffff then
        hash_data [0xf7 + 2, ucast (drop_bit 8 len), ucast (len AND 0xff)] 3 s
      else
        hash_data [0xf7 + 3, ucast (drop_bit 16 len), ucast (drop_bit 8 len),
                   ucast (len AND 0xff)] 4 s)"

text \<open>\<^verbatim>\<open>hash_rlp_field(buf, size)\<close>: \<open>buf\<close> is the field's array, read at index 0 even
  when \<open>size\<close> is 0.\<close>

definition hash_rlp_field :: "u8 list \<Rightarrow> u32 \<Rightarrow> state \<Rightarrow> state" where
  "hash_rlp_field buf sz s =
     (let s1 = hash_rlp_length sz (buf ! 0) s
      in if sz > 1 \<or> buf ! 0 \<ge> 0x80 then hash_data buf sz s1 else s1)"

text \<open>
  \<^verbatim>\<open>rlp_calculate_length(int length, uint8_t firstbyte)\<close> returns \<^verbatim>\<open>int\<close>: the
  32-bit argument is compared as a signed value and the sum is again 32 bits wide.
\<close>

definition rlp_calculate_length :: "u32 \<Rightarrow> u8 \<Rightarrow> u32" where
  "rlp_calculate_length len firstbyte =
     (if len = 1 \<and> firstbyte \<le> 0x7f then 1
      else if word_sle len 55 then 1 + len
      else if word_sle len 0xff then 2 + len
      else if word_sle len 0xffff then 3 + len
      else 4 + len)"

section \<open>Collaborators\<close>

definition fsm_sendFailure :: "FailureType \<Rightarrow> string \<Rightarrow> state \<Rightarrow> state" where
  "fsm_sendFailure code text s = s\<lparr>out := out s @ [Failure code text]\<rparr>"

definition layoutHome :: "state \<Rightarrow> state" where
  "layoutHome s = s\<lparr>out := out s @ [LayoutHome]\<rparr>"

definition layoutProgress :: "u32 \<Rightarrow> state \<Rightarrow> state" where
  "layoutProgress permil s = s\<lparr>out := out s @ [LayoutProgress permil]\<rparr>"

text \<open>\<^verbatim>\<open>msg_write(MessageType_MessageType_EthereumTxRequest, &resp)\<close> sends the staged
  response as it stands.\<close>

definition msg_write :: "state \<Rightarrow> state" where
  "msg_write s = s\<lparr>out := out s @ [MsgWrite (resp s)]\<rparr>"

text \<open>\<^verbatim>\<open>layoutEthereumConfirmTx\<close> only formats and draws; the call is recorded with
  its arguments.\<close>

definition layoutEthereumConfirmTx :: "EthereumSignTx \<Rightarrow> state \<Rightarrow> state" where
  "layoutEthereumConfirmTx msg s =
     s\<lparr>out := out s @
       [ConfirmTx (if has_to msg then Some (b_bytes (to msg)) else None)
                  (if has_value msg then Some (b_bytes (value_f msg)) else None)
                  (if has_value msg then b_size (value_f msg) else 0)]\<rparr>"

text \<open>\<^verbatim>\<open>protectButton\<close> asks the user; the answer is an input of the model.\<close>

definition protectButton :: "state \<Rightarrow> state" where
  "protectButton s = s\<lparr>out := out s @ [ButtonRequest]\<rparr>"

text \<open>
  The two cryptographic primitives are parameters of the model:
  \<open>keccak_Final\<close> maps the absorbed bytes to the 32-byte digest, and
  \<open>ecdsa_sign_digest key digest\<close> is \<open>None\<close> where the C function returns non-zero,
  and \<open>Some (sig, v)\<close> with the 64 signature bytes and the recovery id otherwise.
\<close>

type_synonym keccak_fn = "u8 list \<Rightarrow> u8 list"
type_synonym sign_fn = "u8 list \<Rightarrow> u8 list \<Rightarrow> (u8 list \<times> u8) option"

section \<open>Signing session\<close>

text \<open>\<^verbatim>\<open>memcpy(dst, src, n)\<close> on arrays.\<close>

definition memcpy :: "u8 list \<Rightarrow> u8 list \<Rightarrow> nat \<Rightarrow> u8 list" where
  "memcpy dst src n = take n src @ drop n dst"

definition ethereum_signing_abort :: "state \<Rightarrow> state" where
  "ethereum_signing_abort s =
     (if signing s then
        (layoutHome (s\<lparr>privkey := replicate 32 0\<rparr>))\<lparr>signing := False\<rparr>
      else s)"

text \<open>The progress value is computed in \<^verbatim>\<open>uint32_t\<close>.  The divisor
  \<open>data_total\<close> is not 0 in any state in which a session is active (lemma
  \<open>run_data_total\<close> below), so the division by zero, which HOL evaluates to 0, is
  never reached from the entry points.\<close>

definition send_request_chunk :: "state \<Rightarrow> state" where
  "send_request_chunk s =
     (let s1 = layoutProgress (1000 - 800 * data_left s div data_total s) s;
          s2 = s1\<lparr>resp := (resp s1)\<lparr>r_has_data_length := True\<rparr>\<rparr>;
          s3 = s2\<lparr>resp := (resp s2)\<lparr>r_data_length :=
                  (if data_left s2 \<le> 1024 then data_left s2 else 1024)\<rparr>\<rparr>
      in msg_write s3)"

definition send_signature :: "keccak_fn \<Rightarrow> sign_fn \<Rightarrow> state \<Rightarrow> state" where
  "send_signature keccak_Final ecdsa_sign_digest s =
     (let s1 = layoutProgress 1000 s;
          s2 = s1\<lparr>hash := keccak_Final (keccak_ctx s1)\<rparr>
      in case ecdsa_sign_digest (privkey s2) (hash s2) of
           None \<Rightarrow>
             ethereum_signing_abort (fsm_sendFailure Failure_Other ''Signing failed'' s2)
         | Some (sg, v) \<Rightarrow>
             (let s3 = s2\<lparr>sig := sg\<rparr>;
                  s4 = s3\<lparr>privkey := replicate 32 0\<rparr>;
                  r = resp s4;
                  r = r\<lparr>r_has_data_length := False\<rparr>;
                  r = r\<lparr>r_has_signature_v := True\<rparr>;
                  r = r\<lparr>r_signature_v := ucast v + 27\<rparr>;
                  r = r\<lparr>r_has_signature_r := True\<rparr>;
                  r = r\<lparr>r_signature_r := \<lparr>b_size = 32,
                         b_bytes = memcpy (b_bytes (r_signature_r r)) (sig s4) 32\<rparr>\<rparr>;
                  r = r\<lparr>r_has_signature_s := True\<rparr>;
                  r = r\<lparr>r_signature_s := \<lparr>b_size = 32,
                         b_bytes = memcpy (b_bytes (r_signature_s r)) (drop 32 (sig s4)) 32\<rparr>\<rparr>;
                  s5 = msg_write (s4\<lparr>resp := r\<rparr>)
              in ethereum_signing_abort s5))"

text \<open>\<^verbatim>\<open>memset(&resp, 0, sizeof(EthereumTxRequest))\<close>; both signature fields have
  room for 32 bytes.\<close>

definition zero_resp :: EthereumTxRequest where
  "zero_resp =
     \<lparr>r_has_data_length = False, r_data_length = 0,
      r_has_signature_v = False, r_signature_v = 0,
      r_has_signature_r = False, r_signature_r = \<lparr>b_size = 0, b_bytes = replicate 32 0\<rparr>,
      r_has_signature_s = False, r_signature_s = \<lparr>b_size = 0, b_bytes = replicate 32 0\<rparr>\<rparr>"

text \<open>Stage 1 of \<^verbatim>\<open>ethereum_signing_init\<close>: the total RLP length, summed in
  \<^verbatim>\<open>uint32_t\<close>.\<close>

definition rlp_length :: "EthereumSignTx \<Rightarrow> u32" where
  "rlp_length msg =
     0
     + (if has_nonce msg
        then rlp_calculate_length (b_size (nonce msg)) (b_bytes (nonce msg) ! 0) else 1)
     + (if has_gas_price msg
        then rlp_calculate_length (b_size (gas_price msg)) (b_bytes (gas_price msg) ! 0) else 1)
     + (if has_gas_limit msg
        then rlp_calculate_length (b_size (gas_limit msg)) (b_bytes (gas_limit msg) ! 0) else 1)
     + (if has_to msg
        then rlp_calculate_length (b_size (to msg)) (b_bytes (to msg) ! 0) else 1)
     + (if has_value msg
        then rlp_calculate_length (b_size (value_f msg)) (b_bytes (value_f msg) ! 0) else 1)
     + (if has_data_length msg \<and> has_data_initial_chunk msg
        then rlp_calculate_length (data_length msg) (b_bytes (data_initial_chunk msg) ! 0)
        else 1)"

text \<open>Stage 2: the list header and the six fields go into the digest.\<close>

definition store_header_fields :: "EthereumSignTx \<Rightarrow> state \<Rightarrow> state" where
  "store_header_fields msg s =
     (let s1 = hash_rlp_list_length (rlp_length msg) s;
          s2 = layoutProgress 100 s1;
          s3 = (if has_nonce msg
                then hash_rlp_field (b_bytes (nonce msg)) (b_size (nonce msg)) s2
                else hash_rlp_length 1 0 s2);
          s4 = (if has_gas_price msg
                then hash_rlp_field (b_bytes (gas_price msg)) (b_size (gas_price msg)) s3
                else hash_rlp_length 1 0 s3);
          s5 = (if has_gas_limit msg
                then hash_rlp_field (b_bytes (gas_limit msg)) (b_size (gas_limit msg)) s4
                else hash_rlp_length 1 0 s4);
          s6 = (if has_to msg
                then hash_rlp_field (b_bytes (to msg)) (b_size (to msg)) s5
                else hash_rlp_length 1 0 s5);
          s7 = (if has_value msg
                then hash_rlp_field (b_bytes (value_f msg)) (b_size (value_f msg)) s6
                else hash_rlp_length 1 0 s6);
          s8 = (if has_data_length msg \<and> has_data_initial_chunk msg
                then hash_data (b_bytes (data_initial_chunk msg))
                       (b_size (data_initial_chunk msg))
                       (hash_rlp_length (data_length msg)
                          (b_bytes (data_initial_chunk msg) ! 0) s7)
                else hash_rlp_length 1 0 s7)
      in layoutProgress 200 s8)"

text \<open>\<^verbatim>\<open>ethereum_signing_init(msg, node)\<close>; \<open>button\<close> is the result of
  \<^verbatim>\<open>protectButton\<close>.\<close>

definition ethereum_signing_init ::
  "keccak_fn \<Rightarrow> sign_fn \<Rightarrow> bool \<Rightarrow> EthereumSignTx \<Rightarrow> HDNode \<Rightarrow> state \<Rightarrow> state" where
  "ethereum_signing_init keccak_Final ecdsa_sign_digest button msg node s =
     (let s1 = s\<lparr>signing := True\<rparr>;
          s2 = s1\<lparr>keccak_ctx := []\<rparr>;
          s3 = s2\<lparr>resp := zero_resp\<rparr>
      in
      if has_data_length msg \<and> data_length msg = 0 then
        ethereum_signing_abort
          (fsm_sendFailure Failure_Other ''Invalid data length provided'' s3)
      else if has_data_length msg \<and>
              (\<not> has_data_initial_chunk msg \<or> b_size (data_initial_chunk msg) = 0) then
        ethereum_signing_abort
          (fsm_sendFailure Failure_Other ''Data length provided, but no initial chunk'' s3)
      else if has_data_length msg \<and> b_size (data_initial_chunk msg) > data_length msg then
        ethereum_signing_abort
          (fsm_sendFailure Failure_Other ''Invalid size of initial chunk'' s3)
      else
        (let s4 = s3\<lparr>data_total := (if has_data_length msg then data_length msg else 0)\<rparr>;
             s5 = protectButton (layoutEthereumConfirmTx msg s4)
         in
         if \<not> button then
           ethereum_signing_abort
             (fsm_sendFailure Failure_ActionCancelled ''Signing cancelled by user'' s5)
         else
           (let s6 = layoutProgress 0 s5;
                s7 = store_header_fields msg s6;
                s8 = s7\<lparr>privkey := memcpy (privkey s7) (private_key node) 32\<rparr>
            in
            if has_data_length msg \<and> data_length msg > b_size (data_initial_chunk msg) then
              send_request_chunk
                (s8\<lparr>data_left := data_length msg - b_size (data_initial_chunk msg)\<rparr>)
            else send_signature keccak_Final ecdsa_sign_digest s8)))"

definition ethereum_signing_txack ::
  "keccak_fn \<Rightarrow> sign_fn \<Rightarrow> EthereumTxAck \<Rightarrow> state \<Rightarrow> state" where
  "ethereum_signing_txack keccak_Final ecdsa_sign_digest tx s =
     (if \<not> signing s then
        layoutHome (fsm_sendFailure Failure_UnexpectedMessage ''Not in Signing mode'' s)
      else if data_left s > 0 \<and> (\<not> has_data_chunk tx \<or> b_size (data_chunk tx) = 0) then
        ethereum_signing_abort
          (fsm_sendFailure Failure_Other ''Empty data chunk received'' s)
      else
        (let s1 = hash_data (b_bytes (data_chunk tx)) (b_size (data_chunk tx)) s;
             s2 = s1\<lparr>data_left := data_left s1 - b_size (data_chunk tx)\<rparr>
         in if data_left s2 > 0 then send_request_chunk s2
            else send_signature keccak_Final ecdsa_sign_digest s2))"

text \<open>The file's statics before the first call: zero-initialised.\<close>

definition initial_state :: state where
  "initial_state =
     \<lparr>signing = False, data_total = 0, data_left = 0, resp = zero_resp,
      hash = replicate 32 0, sig = replicate 64 0, privkey = replicate 32 0,
      keccak_ctx = [], out = []\<rparr>"

text \<open>A session is driven by a sequence of calls of the three entry points.\<close>

datatype call =
    Init bool EthereumSignTx HDNode
  | TxAck EthereumTxAck
  | Abort

fun step :: "keccak_fn \<Rightarrow> sign_fn \<Rightarrow> state \<Rightarrow> call \<Rightarrow> state" where
  "step K S s (Init button msg node) = ethereum_signing_init K S button msg node s"
| "step K S s (TxAck tx) = ethereum_signing_txack K S tx s"
| "step K S s Abort = ethereum_signing_abort s"

definition run :: "keccak_fn \<Rightarrow> sign_fn \<Rightarrow> call list \<Rightarrow> state" where
  "run K S calls = foldl (step K S) initial_state calls"

section \<open>Derived notions used in the statements\<close>

text \<open>
  The canonical rule for a byte-string field, written over the field's content \<open>xs\<close>
  of length \<open>L\<close> as the specification states it: a single byte \<open>0x00\<close> is the
  header \<open>0x80\<close> alone; a single byte up to \<open>0x7f\<close> stands for itself; up to 55
  bytes get the header \<open>0x80 + L\<close>; longer fields get \<open>0xb8\<close>, \<open>0xb9\<close> or
  \<open>0xba\<close> followed by \<open>L\<close> in one, two or three big-endian bytes.  This
  definition is the specification's side of the comparison with \<open>hash_rlp_field\<close>.
\<close>

definition spec_field_encoding :: "u8 list \<Rightarrow> u8 list" where
  "spec_field_encoding xs =
     (let L = length xs in
      if xs = [0x00] then [0x80]
      else if L = 1 \<and> hd xs \<le> 0x7f then xs
      else if L \<le> 55 then of_nat (0x80 + L) # xs
      else if L \<le> 255 then 0xb8 # of_nat L # xs
      else if L \<le> 65535 then 0xb9 # of_nat (L div 256) # of_nat (L mod 256) # xs
      else 0xba # of_nat (L div 65536) # of_nat (L div 256 mod 256) # of_nat (L mod 256) # xs)"

text \<open>The bytes a hashing function feeds to a fresh digest context.\<close>

definition emitted :: "(state \<Rightarrow> state) \<Rightarrow> u8 list" where
  "emitted f = keccak_ctx (f initial_state)"

text \<open>What stage 2 of \<open>ethereum_signing_init\<close> hashes for one of the five plain
  fields, for the payload field, and altogether.\<close>

definition field_bytes :: "bool \<Rightarrow> pb_bytes \<Rightarrow> u8 list" where
  "field_bytes present f =
     (if present then emitted (hash_rlp_field (b_bytes f) (b_size f)) else [0x80])"

definition payload_bytes :: "EthereumSignTx \<Rightarrow> u8 list" where
  "payload_bytes msg =
     (if has_data_length msg \<and> has_data_initial_chunk msg
      then emitted (hash_rlp_length (data_length msg) (b_bytes (data_initial_chunk msg) ! 0))
           @ take (unat (b_size (data_initial_chunk msg))) (b_bytes (data_initial_chunk msg))
      else [0x80])"

definition header_bytes :: "EthereumSignTx \<Rightarrow> u8 list" where
  "header_bytes msg =
     emitted (hash_rlp_list_length (rlp_length msg))
     @ field_bytes (has_nonce msg) (nonce msg)
     @ field_bytes (has_gas_price msg) (gas_price msg)
     @ field_bytes (has_gas_limit msg) (gas_limit msg)
     @ field_bytes (has_to msg) (to msg)
     @ field_bytes (has_value msg) (value_f msg)
     @ payload_bytes msg"

text \<open>The three validation checks at the head of \<open>ethereum_signing_init\<close>, taken
  together.\<close>

definition init_rejects :: "EthereumSignTx \<Rightarrow> bool" where
  "init_rejects msg =
     (has_data_length msg \<and>
      (data_length msg = 0 \<or> \<not> has_data_initial_chunk msg \<or>
       b_size (data_initial_chunk msg) = 0 \<or>
       data_length msg < b_size (data_initial_chunk msg)))"

text \<open>The state \<open>ethereum_signing_init\<close> has reached when the user has confirmed, the
  header fields are hashed and the key is loaded (lemma \<open>init_accepted\<close>).\<close>

definition init_hashed :: "EthereumSignTx \<Rightarrow> HDNode \<Rightarrow> state \<Rightarrow> state" where
  "init_hashed msg node s =
     s\<lparr>signing := True, keccak_ctx := header_bytes msg, resp := zero_resp,
       data_total := (if has_data_length msg then data_length msg else 0),
       privkey := memcpy (privkey s) (private_key node) 32,
       out := out s @
         [ConfirmTx (if has_to msg then Some (b_bytes (to msg)) else None)
                    (if has_value msg then Some (b_bytes (value_f msg)) else None)
                    (if has_value msg then b_size (value_f msg) else 0),
          ButtonRequest, LayoutProgress 0, LayoutProgress 100, LayoutProgress 200]\<rparr>"

text \<open>The response \<open>send_signature\<close> stages from the response \<open>r\<close>, the signature
  bytes and the recovery id (lemma \<open>send_signature_ok\<close>).\<close>

definition signature_result :: "EthereumTxRequest \<Rightarrow> u8 list \<Rightarrow> u8 \<Rightarrow> EthereumTxRequest" where
  "signature_result r sg v =
     r\<lparr>r_has_data_length := False,
       r_has_signature_v := True, r_signature_v := ucast v + 27,
       r_has_signature_r := True,
       r_signature_r := \<lparr>b_size = 32, b_bytes = memcpy (b_bytes (r_signature_r r)) sg 32\<rparr>,
       r_has_signature_s := True,
       r_signature_s := \<lparr>b_size = 32,
          b_bytes = memcpy (b_bytes (r_signature_s r)) (drop 32 sg) 32\<rparr>\<rparr>"

definition chunk_request :: "u32 \<Rightarrow> EthereumTxRequest" where
  "chunk_request n = zero_resp\<lparr>r_has_data_length := True, r_data_length := n\<rparr>"

text \<open>Two invariants of the session: the key buffer is zero unless a session is
  active, and \<open>data_total\<close> is not 0 while one is.\<close>

definition key_safe :: "state \<Rightarrow> bool" where
  "key_safe s = (signing s \<or> privkey s = replicate 32 0)"

definition active_ok :: "state \<Rightarrow> bool" where
  "active_ok s = (signing s \<longrightarrow> data_total s \<noteq> 0)"

subsection \<open>Concrete inputs for the examples\<close>

text \<open>
  A transaction with every field absent, one that declares a 10-byte payload and
  brings its first 4 bytes, one that brings 4 payload bytes without declaring a
  length, and two whose payload is a single byte, \<open>0x05\<close> and \<open>0x00\<close>;
  acknowledgements with
  2, 6 and 8 payload bytes; a key; and two stand-ins for the cryptographic primitives,
  which the examples need only to be functions.
\<close>

definition zero_bytes :: pb_bytes where
  "zero_bytes = \<lparr>b_size = 0, b_bytes = [0, 0, 0, 0]\<rparr>"

definition blank_tx :: EthereumSignTx where
  "blank_tx =
     \<lparr>has_nonce = False, nonce = zero_bytes,
      has_gas_price = False, gas_price = zero_bytes,
      has_gas_limit = False, gas_limit = zero_bytes,
      has_to = False, to = zero_bytes,
      has_value = False, value_f = zero_bytes,
      has_data_initial_chunk = False, data_initial_chunk = zero_bytes,
      has_data_length = False, data_length = 0\<rparr>"

definition chunked_tx :: EthereumSignTx where
  "chunked_tx =
     blank_tx\<lparr>has_data_initial_chunk := True,
              data_initial_chunk := \<lparr>b_size = 4, b_bytes = [0xde, 0xad, 0xbe, 0xef]\<rparr>,
              has_data_length := True, data_length := 10\<rparr>"

definition undeclared_tx :: EthereumSignTx where
  "undeclared_tx =
     blank_tx\<lparr>has_data_initial_chunk := True,
              data_initial_chunk := \<lparr>b_size = 4, b_bytes = [0xde, 0xad, 0xbe, 0xef]\<rparr>\<rparr>"

definition single_byte_payload_tx :: EthereumSignTx where
  "single_byte_payload_tx =
     blank_tx\<lparr>has_data_initial_chunk := True,
              data_initial_chunk := \<lparr>b_size = 1, b_bytes = [0x05]\<rparr>,
              has_data_length := True, data_length := 1\<rparr>"

definition zero_byte_payload_tx :: EthereumSignTx where
  "zero_byte_payload_tx =
     blank_tx\<lparr>has_data_initial_chunk := True,
              data_initial_chunk := \<lparr>b_size = 1, b_bytes = [0x00]\<rparr>,
              has_data_length := True, data_length := 1\<rparr>"

definition partial_ack :: EthereumTxAck where
  "partial_ack = \<lparr>has_data_chunk = True,
      data_chunk = \<lparr>b_size = 2, b_bytes = [1, 2]\<rparr>\<rparr>"

definition final_ack :: EthereumTxAck where
  "final_ack = \<lparr>has_data_chunk = True,
      data_chunk = \<lparr>b_size = 6, b_bytes = [1, 2, 3, 4, 5, 6]\<rparr>\<rparr>"

definition overrun_ack :: EthereumTxAck where
  "overrun_ack = \<lparr>has_data_chunk = True,
      data_chunk = \<lparr>b_size = 8, b_bytes = [1, 2, 3, 4, 5, 6, 7, 8]\<rparr>\<rparr>"

definition test_node :: HDNode where
  "test_node = \<lparr>private_key = replicate 32 0x22\<rparr>"

definition test_keccak :: keccak_fn where
  "test_keccak bs = replicate 32 (of_nat (length bs))"

definition test_sign :: sign_fn where
  "test_sign key digest = (if key = replicate 32 0 then None else Some (digest @ key, 1))"

lemmas fixture_defs = zero_bytes_def blank_tx_def chunked_tx_def test_node_def test_keccak_def
  test_sign_def overrun_ack_def final_ack_def partial_ack_def chunk_request_def

section \<open>Word arithmetic used by the encoder\<close>

lemma sint_small:
  fixes L :: u32
  assumes "L \<le> 0x7FFFFFFF"
  shows "sint L = uint L"
proof -
  have hi: "uint L < 2 ^ 31" using assms by (simp add: word_le_def)
  have "- (2 ^ 31) \<le> (0::int)" by simp
  also have "0 \<le> uint L" by simp
  finally have "signed_take_bit 31 (uint L) = uint L" using hi
    by (rule signed_take_bit_int_eq_self)
  then show ?thesis by (simp add: sint_uint)
qed

lemma sle_small:
  fixes L :: u32
  assumes "L \<le> 0x7FFFFFFF" and "K \<le> 0x7FFFFFFF"
  shows "word_sle L K = (L \<le> K)"
  using assms by (simp add: word_sle_eq sint_small word_le_def)

lemma unat_add_small:
  fixes L :: u32
  assumes "L \<le> 0x7FFFFFFF" and "K \<le> 0x7FFFFFFF"
  shows "unat (K + L) = unat K + unat L"
proof -
  have "unat L \<le> 0x7FFFFFFF" "unat K \<le> 0x7FFFFFFF"
    using assms by (simp_all add: word_le_nat_alt)
  then show ?thesis by (simp add: unat_word_ariths)
qed

lemma unat_rlp_calculate_length:
  fixes L :: u32
  assumes "L \<le> 0x7FFFFFFB"
  shows "unat (rlp_calculate_length L b) =
     (if L = 1 \<and> b \<le> 0x7f then 1
      else if L \<le> 55 then 1 + unat L
      else if L \<le> 0xff then 2 + unat L
      else if L \<le> 0xffff then 3 + unat L
      else 4 + unat L)"
proof -
  have L: "L \<le> 0x7FFFFFFF" using assms by (simp add: word_le_nat_alt)
  show ?thesis
    by (simp add: rlp_calculate_length_def sle_small[OF L] unat_add_small[OF L])
qed

lemma unat_ucast_8: "unat (ucast (w :: u32) :: u8) = unat w mod 256"
  by (simp add: unsigned_ucast_eq take_bit_eq_mod)

lemma mod32_mod8: "(n::nat) mod 4294967296 mod 256 = n mod 256"
  by (rule mod_mod_cancel) simp

lemma of_nat_mod_256: "(of_nat (n mod 256) :: u8) = of_nat n"
  by (simp add: word_unat_eq_iff unat_of_nat)

lemma ucast_add_0x80: "(ucast (0x80 + L :: u32) :: u8) = of_nat (0x80 + unat L)"
  by (simp add: word_unat_eq_iff unat_ucast_8 unat_of_nat unat_word_ariths mod32_mod8
      mod_simps)

lemma ucast_drop_bit_8: "(ucast (drop_bit 8 (L :: u32)) :: u8) = of_nat (unat L div 256)"
  by (simp add: word_unat_eq_iff unat_ucast_8 unat_of_nat unat_drop_bit_eq drop_bit_eq_div
      unat_div)

lemma ucast_drop_bit_16: "(ucast (drop_bit 16 (L :: u32)) :: u8) = of_nat (unat L div 65536)"
  by (simp add: word_unat_eq_iff unat_ucast_8 unat_of_nat unat_drop_bit_eq drop_bit_eq_div
      unat_div)

lemma unat_and_0xff: "unat ((L :: u32) AND 0xff) = unat L mod 256"
proof -
  have "(0xff :: u32) = mask 8" by (simp add: mask_eq_exp_minus_1)
  then have "L AND 0xff = take_bit 8 L" by (simp add: take_bit_eq_mask)
  then have "L AND 0xff = L mod 256" by (simp add: take_bit_eq_mod)
  then show ?thesis by (simp add: unat_mod)
qed

lemma ucast_and_0xff: "(ucast ((L :: u32) AND 0xff) :: u8) = of_nat (unat L mod 256)"
  by (simp add: word_unat_eq_iff unat_ucast_8 unat_of_nat unat_and_0xff)

lemma keccak_ctx_hash_data:
  "keccak_ctx (hash_data buf n s) = keccak_ctx s @ take (unat n) buf"
  by (simp add: hash_data_def)

section \<open>Canonical encoder\<close>

text \<open>
  The five plain fields (nonce, gas price, gas limit, recipient, value) are hashed by
  \<open>hash_rlp_field\<close>.  For a field whose \<open>L \<le> 0xFFFFFF\<close> content bytes lie in
  \<open>buf\<close>, \<open>hash_rlp_field\<close> appends to the digest exactly the canonical
  encoding of the content: \<open>0x80\<close> alone for the single byte \<open>0x00\<close>, the byte
  itself for a single byte up to \<open>0x7f\<close>, \<open>0x81\<close> and the byte for a single
  byte from \<open>0x80\<close>, the header \<open>0x80 + L\<close> up to 55 bytes, then \<open>0xb8\<close>,
  \<open>0xb9\<close>, \<open>0xba\<close> with \<open>L\<close> in one, two, three big-endian bytes, each
  followed by the content.  The payload field takes another path, see the section on
  the payload field below.
\<close>

theorem hash_rlp_field_canonical:
  fixes L :: u32
  assumes "L \<le> 0xFFFFFF" and "unat L \<le> length buf"
  shows "keccak_ctx (hash_rlp_field buf L s) =
           keccak_ctx s @ spec_field_encoding (take (unat L) buf)"
proof -
  have len: "length (take (unat L) buf) = unat L" using assms(2) by simp
  show ?thesis
  proof (cases "L = 1")
    case True
    with assms(2) obtain b rest where buf: "buf = b # rest" by (cases buf) simp_all
    show ?thesis unfolding True buf
      by (auto simp: hash_rlp_field_def hash_rlp_length_def keccak_ctx_hash_data Let_def
          spec_field_encoding_def word_le_nat_alt word_less_nat_alt)
  next
    case False
    then have u1: "unat L \<noteq> 1" by (simp add: word_unat_eq_iff)
    have xs1: "take (unat L) buf \<noteq> [0]"
    proof
      assume "take (unat L) buf = [0]"
      then have "length (take (unat L) buf) = 1" by simp
      with len u1 show False by simp
    qed
    show ?thesis using False u1 xs1 assms
      apply (simp add: hash_rlp_field_def hash_rlp_length_def keccak_ctx_hash_data Let_def
          spec_field_encoding_def len ucast_add_0x80 ucast_drop_bit_8 ucast_and_0xff
          ucast_drop_bit_16 of_nat_mod_256)
      apply (auto simp: word_le_nat_alt word_less_nat_alt not_le not_less)
      done
  qed
qed

text \<open>Two instances: the single byte \<open>0x00\<close> and a three-byte field.\<close>

theorem hash_rlp_field_canonical_witness:
  "(1::u32) \<le> 0xFFFFFF \<and> unat (1::u32) \<le> length [0x00::u8] \<and>
   keccak_ctx (hash_rlp_field [0x00] 1 initial_state) = [0x80] \<and>
   (3::u32) \<le> 0xFFFFFF \<and> unat (3::u32) \<le> length [0x0a, 0x0b, 0x0c, 0x00 :: u8] \<and>
   keccak_ctx (hash_rlp_field [0x0a, 0x0b, 0x0c, 0x00] 3 initial_state) =
     [0x83, 0x0a, 0x0b, 0x0c]"
  using hash_rlp_field_canonical [of 1 "[0x00]" initial_state]
    hash_rlp_field_canonical [of 3 "[0x0a, 0x0b, 0x0c, 0x00]" initial_state]
  by (simp add: spec_field_encoding_def initial_state_def)

text \<open>
  For a field hashed by \<open>hash_rlp_field\<close>, of any length \<open>L\<close> of the header
  tiers (and beyond, as long as \<open>L + 4\<close> fits a signed 32-bit integer) and with
  any first byte, the number \<open>rlp_calculate_length\<close> returns is exactly the number
  of bytes \<open>hash_rlp_field\<close> appends to the digest, header and body together.
\<close>

theorem rlp_calculate_length_agrees:
  fixes L :: u32
  assumes "L \<le> 0x7FFFFFFB" and "unat L \<le> length buf"
  shows "length (keccak_ctx (hash_rlp_field buf L s)) =
           length (keccak_ctx s) + unat (rlp_calculate_length L (buf ! 0))"
  using assms
  apply (simp add: unat_rlp_calculate_length hash_rlp_field_def hash_rlp_length_def
      keccak_ctx_hash_data Let_def)
  apply (auto simp: word_le_nat_alt word_less_nat_alt not_le not_less word_unat_eq_iff)
  done

text \<open>Two instances: the single-byte cases below and from \<open>0x80\<close>.\<close>

theorem rlp_calculate_length_agrees_witness:
  "(1::u32) \<le> 0x7FFFFFFB \<and> unat (1::u32) \<le> length [0x7f::u8] \<and>
   length (keccak_ctx (hash_rlp_field [0x7f] 1 initial_state)) = 1 \<and>
   rlp_calculate_length 1 0x7f = 1 \<and>
   length (keccak_ctx (hash_rlp_field [0x80] 1 initial_state)) = 2 \<and>
   rlp_calculate_length 1 0x80 = 2"
  using rlp_calculate_length_agrees [of 1 "[0x7f]" initial_state]
    rlp_calculate_length_agrees [of 1 "[0x80]" initial_state]
  by (simp add: initial_state_def rlp_calculate_length_def word_sle_eq)

text \<open>
  Counterexample to claim C6.  The length \<open>0x1010000\<close>, above \<open>0xFFFFFF\<close>, is
  not rejected: both header functions hash four bytes for it, and they are the very
  bytes hashed for the length \<open>0x10000\<close>.
\<close>

theorem length_above_16MiB_counterexample:
  "keccak_ctx (hash_rlp_length 0x1010000 0 initial_state) = [0xba, 0x01, 0x00, 0x00] \<and>
   keccak_ctx (hash_rlp_length 0x0010000 0 initial_state) = [0xba, 0x01, 0x00, 0x00] \<and>
   keccak_ctx (hash_rlp_list_length 0x1010000 initial_state) = [0xfa, 0x01, 0x00, 0x00] \<and>
   keccak_ctx (hash_rlp_list_length 0x0010000 initial_state) = [0xfa, 0x01, 0x00, 0x00]"
  by (simp add: hash_rlp_length_def hash_rlp_list_length_def hash_data_def initial_state_def
      drop_bit_eq_div)

text \<open>
  Claim C6 as amended.  The encoder has no error path.  For every length above
  \<open>0xFFFF\<close>, those above \<open>0xFFFFFF\<close> included, \<open>hash_rlp_length\<close> appends
  \<open>0xba\<close> and \<open>hash_rlp_list_length\<close> appends \<open>0xfa\<close>, each followed by the
  low three bytes of the length, most significant first, and changes nothing else.
\<close>

theorem long_length_header:
  fixes L :: u32
  assumes "0xffff < L"
  shows "hash_rlp_length L b s =
           s\<lparr>keccak_ctx := keccak_ctx s @
              [0xba, of_nat (unat L div 65536), of_nat (unat L div 256), of_nat (unat L)]\<rparr> \<and>
         hash_rlp_list_length L s =
           s\<lparr>keccak_ctx := keccak_ctx s @
              [0xfa, of_nat (unat L div 65536), of_nat (unat L div 256), of_nat (unat L)]\<rparr>"
  using assms
  by (auto simp: hash_rlp_length_def hash_rlp_list_length_def hash_data_def
      ucast_drop_bit_8 ucast_drop_bit_16 ucast_and_0xff of_nat_mod_256
      word_le_nat_alt word_less_nat_alt)

text \<open>Witness for the amended C6 at the length \<open>0x1010000\<close>.\<close>

theorem long_length_header_witness:
  "(0xffff :: u32) < 0x1010000 \<and>
   keccak_ctx (hash_rlp_length 0x1010000 0 initial_state) = [0xba, 0x01, 0x00, 0x00] \<and>
   keccak_ctx (hash_rlp_list_length 0x1010000 initial_state) = [0xfa, 0x01, 0x00, 0x00]"
  using long_length_header [of "0x1010000" 0 initial_state]
  by (simp add: initial_state_def)

section \<open>What the hashing functions append\<close>

lemma hash_rlp_length_emitted:
  "hash_rlp_length len b s = s\<lparr>keccak_ctx := keccak_ctx s @ emitted (hash_rlp_length len b)\<rparr>"
  by (simp add: hash_rlp_length_def emitted_def hash_data_def initial_state_def)

lemma hash_rlp_list_length_emitted:
  "hash_rlp_list_length len s =
     s\<lparr>keccak_ctx := keccak_ctx s @ emitted (hash_rlp_list_length len)\<rparr>"
  by (simp add: hash_rlp_list_length_def emitted_def hash_data_def initial_state_def)

lemma hash_rlp_field_emitted:
  "hash_rlp_field buf sz s = s\<lparr>keccak_ctx := keccak_ctx s @ emitted (hash_rlp_field buf sz)\<rparr>"
  by (simp add: hash_rlp_field_def hash_rlp_length_def emitted_def hash_data_def initial_state_def Let_def)

lemma emitted_null: "emitted (hash_rlp_length 1 0) = [0x80]"
  by (simp add: hash_rlp_length_def emitted_def hash_data_def initial_state_def)

lemma store_header_fields_eq:
  "store_header_fields msg s =
     s\<lparr>keccak_ctx := keccak_ctx s @ header_bytes msg,
       out := out s @ [LayoutProgress 100, LayoutProgress 200]\<rparr>"
  by (simp add: store_header_fields_def Let_def header_bytes_def field_bytes_def
      payload_bytes_def layoutProgress_def hash_data_def emitted_null
      hash_rlp_list_length_emitted hash_rlp_length_emitted hash_rlp_field_emitted)

section \<open>The session's functions case by case\<close>

lemma abort_signing [simp]: "signing (ethereum_signing_abort s) = False"
  by (simp add: ethereum_signing_abort_def layoutHome_def)

lemma abort_privkey:
  "privkey (ethereum_signing_abort s) = (if signing s then replicate 32 0 else privkey s)"
  by (simp add: ethereum_signing_abort_def layoutHome_def)

lemma abort_active:
  "signing s \<Longrightarrow> ethereum_signing_abort s =
     s\<lparr>privkey := replicate 32 0, out := out s @ [LayoutHome], signing := False\<rparr>"
  by (simp add: ethereum_signing_abort_def layoutHome_def)

lemma send_request_chunk_eq:
  "send_request_chunk s =
     s\<lparr>resp := (resp s)\<lparr>r_has_data_length := True,
                            r_data_length := (if data_left s \<le> 1024 then data_left s else 1024)\<rparr>,
       out := out s @
         [LayoutProgress (1000 - 800 * data_left s div data_total s),
          MsgWrite ((resp s)\<lparr>r_has_data_length := True,
                      r_data_length := (if data_left s \<le> 1024 then data_left s else 1024)\<rparr>)]\<rparr>"
  by (simp add: send_request_chunk_def layoutProgress_def msg_write_def Let_def)

lemma send_request_chunk_signing [simp]: "signing (send_request_chunk s) = signing s"
  by (simp add: send_request_chunk_eq)

lemma send_signature_signing [simp]: "signing (send_signature K S s) = False"
  by (simp add: send_signature_def Let_def split: option.split prod.split)

lemma send_signature_privkey:
  "signing s \<Longrightarrow> privkey (send_signature K S s) = replicate 32 0"
  by (simp add: send_signature_def Let_def abort_privkey layoutProgress_def fsm_sendFailure_def
      msg_write_def split: option.split prod.split)

lemma send_signature_None:
  assumes "S (privkey s) (K (keccak_ctx s)) = None"
  shows "send_signature K S s =
     ethereum_signing_abort
       (s\<lparr>hash := K (keccak_ctx s),
          out := out s @ [LayoutProgress 1000, Failure Failure_Other ''Signing failed'']\<rparr>)"
  using assms
  by (simp add: send_signature_def Let_def layoutProgress_def fsm_sendFailure_def)

lemma send_signature_Some:
  assumes "S (privkey s) (K (keccak_ctx s)) = Some (sg, v)"
  shows "send_signature K S s =
     ethereum_signing_abort
       (s\<lparr>hash := K (keccak_ctx s), sig := sg, privkey := replicate 32 0,
          resp := (resp s)\<lparr>r_has_data_length := False,
                    r_has_signature_v := True, r_signature_v := ucast v + 27,
                    r_has_signature_r := True,
                    r_signature_r := \<lparr>b_size = 32,
                       b_bytes = memcpy (b_bytes (r_signature_r (resp s))) sg 32\<rparr>,
                    r_has_signature_s := True,
                    r_signature_s := \<lparr>b_size = 32,
                       b_bytes = memcpy (b_bytes (r_signature_s (resp s))) (drop 32 sg) 32\<rparr>\<rparr>,
          out := out s @ [LayoutProgress 1000,
             MsgWrite ((resp s)\<lparr>r_has_data_length := False,
                    r_has_signature_v := True, r_signature_v := ucast v + 27,
                    r_has_signature_r := True,
                    r_signature_r := \<lparr>b_size = 32,
                       b_bytes = memcpy (b_bytes (r_signature_r (resp s))) sg 32\<rparr>,
                    r_has_signature_s := True,
                    r_signature_s := \<lparr>b_size = 32,
                       b_bytes = memcpy (b_bytes (r_signature_s (resp s))) (drop 32 sg) 32\<rparr>\<rparr>)]\<rparr>)"
  using assms
  by (simp add: send_signature_def Let_def layoutProgress_def msg_write_def)

lemma send_signature_ok:
  assumes "signing s" and "S (privkey s) (K (keccak_ctx s)) = Some (sg, v)"
  shows "send_signature K S s =
     s\<lparr>signing := False, hash := K (keccak_ctx s), sig := sg, privkey := replicate 32 0,
       resp := signature_result (resp s) sg v,
       out := out s @ [LayoutProgress 1000, MsgWrite (signature_result (resp s) sg v),
                       LayoutHome]\<rparr>"
  using assms
  by (simp add: send_signature_Some abort_active signature_result_def)

lemma init_accepted:
  assumes "\<not> init_rejects msg"
  shows "ethereum_signing_init K S True msg node s =
     (if has_data_length msg \<and> data_length msg > b_size (data_initial_chunk msg)
      then send_request_chunk
             ((init_hashed msg node s)\<lparr>data_left :=
                 data_length msg - b_size (data_initial_chunk msg)\<rparr>)
      else send_signature K S (init_hashed msg node s))"
  using assms
  by (auto simp: ethereum_signing_init_def init_rejects_def init_hashed_def Let_def
      store_header_fields_eq layoutProgress_def protectButton_def layoutEthereumConfirmTx_def
      not_less
      intro!: arg_cong[where f = "send_signature K S"] arg_cong[where f = send_request_chunk])

lemma init_cancelled:
  assumes "\<not> init_rejects msg"
  shows "ethereum_signing_init K S False msg node s =
     s\<lparr>signing := False, keccak_ctx := [], resp := zero_resp,
       data_total := (if has_data_length msg then data_length msg else 0),
       privkey := replicate 32 0,
       out := out s @
         [ConfirmTx (if has_to msg then Some (b_bytes (to msg)) else None)
                    (if has_value msg then Some (b_bytes (value_f msg)) else None)
                    (if has_value msg then b_size (value_f msg) else 0),
          ButtonRequest, Failure Failure_ActionCancelled ''Signing cancelled by user'',
          LayoutHome]\<rparr>"
  using assms
  by (auto simp: ethereum_signing_init_def init_rejects_def Let_def abort_active
      fsm_sendFailure_def protectButton_def layoutEthereumConfirmTx_def not_less)

lemma init_rejected:
  assumes "init_rejects msg"
  shows "ethereum_signing_init K S button msg node s =
     s\<lparr>signing := False, keccak_ctx := [], resp := zero_resp, privkey := replicate 32 0,
       out := out s @
         [Failure Failure_Other
            (if data_length msg = 0 then ''Invalid data length provided''
             else if \<not> has_data_initial_chunk msg \<or> b_size (data_initial_chunk msg) = 0
             then ''Data length provided, but no initial chunk''
             else ''Invalid size of initial chunk''),
          LayoutHome]\<rparr>"
  using assms
  by (auto simp: ethereum_signing_init_def init_rejects_def Let_def abort_active
      fsm_sendFailure_def)

subsection \<open>The examples evaluated\<close>

lemma run_Nil: "run K S [] = initial_state"
  by (simp add: run_def)

lemma run_snoc: "run K S (cs @ [c]) = step K S (run K S cs) c"
  by (simp add: run_def)

lemma chunked_not_rejected: "\<not> init_rejects chunked_tx"
  by (simp add: init_rejects_def fixture_defs)

lemma header_bytes_chunked:
  "header_bytes chunked_tx = [0xd0, 0x80, 0x80, 0x80, 0x80, 0x80, 0x8a, 0xde, 0xad, 0xbe, 0xef]"
  by (simp add: header_bytes_def field_bytes_def payload_bytes_def emitted_def rlp_length_def
      rlp_calculate_length_def hash_rlp_list_length_def hash_rlp_length_def hash_data_def
      initial_state_def fixture_defs word_sle_eq)

lemma header_bytes_blank: "header_bytes blank_tx = [0xc6, 0x80, 0x80, 0x80, 0x80, 0x80, 0x80]"
  by (simp add: header_bytes_def field_bytes_def payload_bytes_def emitted_def rlp_length_def
      hash_rlp_list_length_def hash_data_def initial_state_def blank_tx_def)

lemma awaiting_state:
  "run test_keccak test_sign [Init True chunked_tx test_node] =
     initial_state\<lparr>signing := True, data_total := 10, data_left := 6,
       resp := chunk_request 6, privkey := replicate 32 0x22,
       keccak_ctx := [0xd0, 0x80, 0x80, 0x80, 0x80, 0x80, 0x8a, 0xde, 0xad, 0xbe, 0xef],
       out := [ConfirmTx None None 0, ButtonRequest, LayoutProgress 0, LayoutProgress 100,
               LayoutProgress 200, LayoutProgress 520, MsgWrite (chunk_request 6)]\<rparr>"
  using run_snoc [of test_keccak test_sign "[]" "Init True chunked_tx test_node"]
  apply (simp add: run_Nil init_accepted [OF chunked_not_rejected] send_request_chunk_eq
      init_hashed_def header_bytes_chunked)
  apply (simp add: fixture_defs initial_state_def memcpy_def)
  done

lemma final_run:
  "run test_keccak test_sign [Init True chunked_tx test_node, TxAck final_ack] =
     ethereum_signing_txack test_keccak test_sign final_ack
       (run test_keccak test_sign [Init True chunked_tx test_node])"
  using run_snoc [of test_keccak test_sign "[Init True chunked_tx test_node]" "TxAck final_ack"]
  by simp

section \<open>Validation in \<open>ethereum_signing_init\<close>\<close>

text \<open>
  Claim C8.  When the message declares a payload length and the length is 0, or no
  non-empty initial chunk comes with it, or the initial chunk is longer than the
  declared length, \<open>ethereum_signing_init\<close> reports a failure of type
  \<open>Failure_Other\<close> with one of three distinct texts, aborts, and returns; the
  trace holds the failure and \<open>layoutHome\<close> only, so no confirmation was shown.
\<close>

theorem init_rejects_bad_payload_declaration:
  assumes "has_data_length msg"
    and "data_length msg = 0 \<or> \<not> has_data_initial_chunk msg \<or>
         b_size (data_initial_chunk msg) = 0 \<or>
         data_length msg < b_size (data_initial_chunk msg)"
  shows "ethereum_signing_init K S button msg node s =
     s\<lparr>signing := False, keccak_ctx := [], resp := zero_resp, privkey := replicate 32 0,
       out := out s @
         [Failure Failure_Other
            (if data_length msg = 0 then ''Invalid data length provided''
             else if \<not> has_data_initial_chunk msg \<or> b_size (data_initial_chunk msg) = 0
             then ''Data length provided, but no initial chunk''
             else ''Invalid size of initial chunk''),
          LayoutHome]\<rparr>"
  using assms by (intro init_rejected) (simp add: init_rejects_def)

text \<open>Witness for C8: a declared length of 0, a declared length of 5 with an empty
  initial chunk, and a declared length of 3 with a 4-byte initial chunk.\<close>

theorem init_rejects_bad_payload_declaration_witness:
  "has_data_length (blank_tx\<lparr>has_data_length := True\<rparr>) \<and>
   data_length (blank_tx\<lparr>has_data_length := True\<rparr>) = 0 \<and>
   out (ethereum_signing_init test_keccak test_sign True
         (blank_tx\<lparr>has_data_length := True\<rparr>) test_node initial_state) =
     [Failure Failure_Other ''Invalid data length provided'', LayoutHome] \<and>
   has_data_length (blank_tx\<lparr>has_data_length := True, data_length := 5,
        has_data_initial_chunk := True\<rparr>) \<and>
   b_size (data_initial_chunk (blank_tx\<lparr>has_data_length := True, data_length := 5,
        has_data_initial_chunk := True\<rparr>)) = 0 \<and>
   out (ethereum_signing_init test_keccak test_sign True
         (blank_tx\<lparr>has_data_length := True, data_length := 5,
            has_data_initial_chunk := True\<rparr>) test_node initial_state) =
     [Failure Failure_Other ''Data length provided, but no initial chunk'', LayoutHome] \<and>
   has_data_length (chunked_tx\<lparr>data_length := 3\<rparr>) \<and>
   data_length (chunked_tx\<lparr>data_length := 3\<rparr>) <
     b_size (data_initial_chunk (chunked_tx\<lparr>data_length := 3\<rparr>)) \<and>
   out (ethereum_signing_init test_keccak test_sign True
         (chunked_tx\<lparr>data_length := 3\<rparr>) test_node initial_state) =
     [Failure Failure_Other ''Invalid size of initial chunk'', LayoutHome]"
  using init_rejects_bad_payload_declaration [of
      "blank_tx\<lparr>has_data_length := True\<rparr>"
      test_keccak test_sign True test_node initial_state]
    init_rejects_bad_payload_declaration [of
      "blank_tx\<lparr>has_data_length := True, data_length := 5, has_data_initial_chunk := True\<rparr>"
      test_keccak test_sign True test_node initial_state]
    init_rejects_bad_payload_declaration [of
      "chunked_tx\<lparr>data_length := 3\<rparr>"
      test_keccak test_sign True test_node initial_state]
  by (simp add: chunked_tx_def blank_tx_def zero_bytes_def initial_state_def)

section \<open>Calls out of order\<close>

text \<open>
  Claim C9.  Called while no signing operation is active,
  \<open>ethereum_signing_txack\<close> reports \<open>Failure_UnexpectedMessage\<close> and leaves
  every static variable as it was: the active flag, the payload accounting, the digest
  context, the key buffer and the staged response.
\<close>

theorem txack_not_signing:
  assumes "\<not> signing s"
  shows "ethereum_signing_txack K S tx s =
           s\<lparr>out := out s @ [Failure Failure_UnexpectedMessage ''Not in Signing mode'',
                              LayoutHome]\<rparr>"
  using assms by (simp add: ethereum_signing_txack_def fsm_sendFailure_def layoutHome_def)

text \<open>Witness for C9 in the initial state.\<close>

theorem txack_not_signing_witness:
  "\<not> signing initial_state \<and>
   ethereum_signing_txack test_keccak test_sign final_ack initial_state =
     initial_state\<lparr>out := [Failure Failure_UnexpectedMessage ''Not in Signing mode'',
                             LayoutHome]\<rparr>"
  using txack_not_signing [of initial_state test_keccak test_sign final_ack]
  by (simp add: initial_state_def)




section \<open>The key buffer\<close>

lemma init_key_safe: "key_safe (ethereum_signing_init K S button msg node s)"
proof (cases "init_rejects msg")
  case True
  then show ?thesis by (simp add: init_rejected key_safe_def)
next
  case False
  show ?thesis
  proof (cases button)
    case True
    with False show ?thesis
      by (simp add: init_accepted key_safe_def send_signature_privkey init_hashed_def)
  next
    case b: False
    with False show ?thesis by (simp add: init_cancelled key_safe_def)
  qed
qed

lemma txack_key_safe:
  assumes "key_safe s"
  shows "key_safe (ethereum_signing_txack K S tx s)"
proof (cases "signing s")
  case True
  then show ?thesis
    by (simp add: ethereum_signing_txack_def key_safe_def Let_def abort_privkey
        fsm_sendFailure_def hash_data_def send_signature_privkey)
next
  case False
  with assms show ?thesis
    by (simp add: ethereum_signing_txack_def key_safe_def fsm_sendFailure_def layoutHome_def)
qed

lemma abort_key_safe: "key_safe s \<Longrightarrow> key_safe (ethereum_signing_abort s)"
  by (auto simp: key_safe_def abort_privkey)

lemma step_key_safe: "key_safe s \<Longrightarrow> key_safe (step K S s c)"
  by (cases c) (simp_all add: init_key_safe txack_key_safe abort_key_safe)

lemma foldl_key_safe: "key_safe s \<Longrightarrow> key_safe (foldl (step K S) s cs)"
  by (induction cs arbitrary: s) (simp_all add: step_key_safe)

lemma run_key_safe: "key_safe (run K S cs)"
  unfolding run_def by (rule foldl_key_safe) (simp add: key_safe_def initial_state_def)

text \<open>
  Claim C1.  After any sequence of calls of the three entry points from the initial
  state, the key buffer is all zero whenever no signing operation is active.  Each
  terminal transition zeroes it: whenever \<open>ethereum_signing_init\<close> returns with
  the session inactive (signature sent, signing failed, the user cancelled, the
  message was rejected), whenever \<open>ethereum_signing_txack\<close> ends an active
  session (signature sent, signing failed, empty chunk), and whenever
  \<open>ethereum_signing_abort\<close> is called on an active session, the 32 bytes are 0.
\<close>

theorem privkey_zero_unless_signing:
  "(\<not> signing (run K S calls) \<longrightarrow> privkey (run K S calls) = replicate 32 0) \<and>
   (\<not> signing (ethereum_signing_init K S button msg node s) \<longrightarrow>
      privkey (ethereum_signing_init K S button msg node s) = replicate 32 0) \<and>
   (signing s \<longrightarrow> \<not> signing (ethereum_signing_txack K S tx s) \<longrightarrow>
      privkey (ethereum_signing_txack K S tx s) = replicate 32 0) \<and>
   (signing s \<longrightarrow> \<not> signing (ethereum_signing_abort s) \<and>
      privkey (ethereum_signing_abort s) = replicate 32 0)"
proof (intro conjI impI)
  assume "\<not> signing (run K S calls)"
  with run_key_safe [of K S calls] show "privkey (run K S calls) = replicate 32 0"
    by (simp add: key_safe_def)
next
  assume "\<not> signing (ethereum_signing_init K S button msg node s)"
  with init_key_safe [of K S button msg node s]
  show "privkey (ethereum_signing_init K S button msg node s) = replicate 32 0"
    by (simp add: key_safe_def)
next
  assume "signing s" and "\<not> signing (ethereum_signing_txack K S tx s)"
  with txack_key_safe [of s K S tx]
  show "privkey (ethereum_signing_txack K S tx s) = replicate 32 0"
    by (simp add: key_safe_def)
next
  assume "signing s"
  then show "\<not> signing (ethereum_signing_abort s)" by simp
next
  assume "signing s"
  then show "privkey (ethereum_signing_abort s) = replicate 32 0" by (simp add: abort_privkey)
qed

text \<open>Witness for C1: the key is loaded while the session awaits the payload, and
  zero once the last chunk has been signed.\<close>

theorem privkey_zero_unless_signing_witness:
  "\<not> signing (run test_keccak test_sign [Init True chunked_tx test_node, TxAck final_ack]) \<and>
   privkey (run test_keccak test_sign [Init True chunked_tx test_node, TxAck final_ack]) =
     replicate 32 0 \<and>
   privkey (run test_keccak test_sign [Init True chunked_tx test_node]) = replicate 32 0x22"
proof -
  have idle: "\<not> signing
      (run test_keccak test_sign [Init True chunked_tx test_node, TxAck final_ack])"
    unfolding final_run awaiting_state
    by (simp add: ethereum_signing_txack_def Let_def initial_state_def final_ack_def
        hash_data_def)
  from privkey_zero_unless_signing [of test_keccak test_sign
      "[Init True chunked_tx test_node, TxAck final_ack]", THEN conjunct1] idle
  show ?thesis by (simp add: awaiting_state)
qed

section \<open>Chunk requests and the signature\<close>

text \<open>
  Claim C7.  An accepted chunk lowers \<open>data_left\<close> by its size.  While the result
  is not 0 the session stays active and sends one response whose \<open>data_length\<close>
  is the smaller of \<open>data_left\<close> and 1024.  When the result is 0 and the
  signature primitive succeeds, the digest is finalised over everything hashed, and
  the one response sent carries no \<open>data_length\<close>, \<open>signature_v\<close> equal to the
  recovery id plus 27, and \<open>signature_r\<close> and \<open>signature_s\<close> of size 32; the
  session is then inactive.
\<close>

theorem txack_requests_then_signs:
  assumes "signing s" and "has_data_chunk tx" and "b_size (data_chunk tx) \<noteq> 0"
  shows
   "(data_left s - b_size (data_chunk tx) \<noteq> 0 \<longrightarrow>
       ethereum_signing_txack K S tx s =
         s\<lparr>data_left := data_left s - b_size (data_chunk tx),
           keccak_ctx := keccak_ctx s @
              take (unat (b_size (data_chunk tx))) (b_bytes (data_chunk tx)),
           resp := (resp s)\<lparr>r_has_data_length := True,
              r_data_length := min (data_left s - b_size (data_chunk tx)) 1024\<rparr>,
           out := out s @
             [LayoutProgress
                (1000 - 800 * (data_left s - b_size (data_chunk tx)) div data_total s),
              MsgWrite ((resp s)\<lparr>r_has_data_length := True,
                 r_data_length := min (data_left s - b_size (data_chunk tx)) 1024\<rparr>)]\<rparr>) \<and>
    (data_left s - b_size (data_chunk tx) = 0 \<longrightarrow>
       S (privkey s)
         (K (keccak_ctx s @ take (unat (b_size (data_chunk tx))) (b_bytes (data_chunk tx)))) =
         Some (sg, v) \<longrightarrow>
       ethereum_signing_txack K S tx s =
         s\<lparr>signing := False, data_left := 0,
           keccak_ctx := keccak_ctx s @
              take (unat (b_size (data_chunk tx))) (b_bytes (data_chunk tx)),
           hash := K (keccak_ctx s @
              take (unat (b_size (data_chunk tx))) (b_bytes (data_chunk tx))),
           sig := sg, privkey := replicate 32 0,
           resp := signature_result (resp s) sg v,
           out := out s @ [LayoutProgress 1000, MsgWrite (signature_result (resp s) sg v),
                           LayoutHome]\<rparr> \<and>
       r_has_data_length (signature_result (resp s) sg v) = False \<and>
       r_signature_v (signature_result (resp s) sg v) = ucast v + 27 \<and>
       b_size (r_signature_r (signature_result (resp s) sg v)) = 32 \<and>
       b_size (r_signature_s (signature_result (resp s) sg v)) = 32)"
proof (intro conjI impI)
  assume d: "data_left s - b_size (data_chunk tx) \<noteq> 0"
  then have "0 < data_left s - b_size (data_chunk tx)"
    unfolding word_gt_0 by (rule not_sym)
  with assms show "ethereum_signing_txack K S tx s =
         s\<lparr>data_left := data_left s - b_size (data_chunk tx),
           keccak_ctx := keccak_ctx s @
              take (unat (b_size (data_chunk tx))) (b_bytes (data_chunk tx)),
           resp := (resp s)\<lparr>r_has_data_length := True,
              r_data_length := min (data_left s - b_size (data_chunk tx)) 1024\<rparr>,
           out := out s @
             [LayoutProgress
                (1000 - 800 * (data_left s - b_size (data_chunk tx)) div data_total s),
              MsgWrite ((resp s)\<lparr>r_has_data_length := True,
                 r_data_length := min (data_left s - b_size (data_chunk tx)) 1024\<rparr>)]\<rparr>"
    by (simp add: ethereum_signing_txack_def Let_def hash_data_def send_request_chunk_eq
        min_def)
next
  assume d: "data_left s - b_size (data_chunk tx) = 0"
    and sg: "S (privkey s)
         (K (keccak_ctx s @ take (unat (b_size (data_chunk tx))) (b_bytes (data_chunk tx)))) =
         Some (sg, v)"
  let ?s2 = "s\<lparr>keccak_ctx := keccak_ctx s @
              take (unat (b_size (data_chunk tx))) (b_bytes (data_chunk tx)),
              data_left := 0\<rparr>"
  have "ethereum_signing_txack K S tx s = send_signature K S ?s2"
    using assms d by (simp add: ethereum_signing_txack_def Let_def hash_data_def)
  also have "\<dots> = ?s2\<lparr>signing := False, hash := K (keccak_ctx ?s2), sig := sg,
       privkey := replicate 32 0, resp := signature_result (resp ?s2) sg v,
       out := out ?s2 @ [LayoutProgress 1000, MsgWrite (signature_result (resp ?s2) sg v),
                       LayoutHome]\<rparr>"
    by (rule send_signature_ok) (use assms sg in simp_all)
  finally show "ethereum_signing_txack K S tx s =
         s\<lparr>signing := False, data_left := 0,
           keccak_ctx := keccak_ctx s @
              take (unat (b_size (data_chunk tx))) (b_bytes (data_chunk tx)),
           hash := K (keccak_ctx s @
              take (unat (b_size (data_chunk tx))) (b_bytes (data_chunk tx))),
           sig := sg, privkey := replicate 32 0,
           resp := signature_result (resp s) sg v,
           out := out s @ [LayoutProgress 1000, MsgWrite (signature_result (resp s) sg v),
                           LayoutHome]\<rparr>"
    by simp
qed (simp_all add: signature_result_def)

text \<open>Witness for C7: with 6 bytes awaited, a 6-byte chunk yields the signature and
  a 2-byte chunk yields a request for the remaining 4.\<close>

theorem txack_requests_then_signs_witness:
  "signing (run test_keccak test_sign [Init True chunked_tx test_node]) \<and>
   has_data_chunk final_ack \<and> b_size (data_chunk final_ack) \<noteq> 0 \<and>
   data_left (run test_keccak test_sign [Init True chunked_tx test_node]) -
     b_size (data_chunk final_ack) = 0 \<and>
   out (ethereum_signing_txack test_keccak test_sign final_ack
         (run test_keccak test_sign [Init True chunked_tx test_node])) =
     out (run test_keccak test_sign [Init True chunked_tx test_node]) @
       [LayoutProgress 1000,
        MsgWrite (signature_result (chunk_request 6)
                    (replicate 32 17 @ replicate 32 0x22) 1),
        LayoutHome] \<and>
   has_data_chunk partial_ack \<and> b_size (data_chunk partial_ack) \<noteq> 0 \<and>
   data_left (run test_keccak test_sign [Init True chunked_tx test_node]) -
     b_size (data_chunk partial_ack) = 4 \<and>
   out (ethereum_signing_txack test_keccak test_sign partial_ack
         (run test_keccak test_sign [Init True chunked_tx test_node])) =
     out (run test_keccak test_sign [Init True chunked_tx test_node]) @
       [LayoutProgress 680, MsgWrite (chunk_request 4)]"
  using txack_requests_then_signs [where
      s = "run test_keccak test_sign [Init True chunked_tx test_node]" and tx = final_ack
      and S = test_sign and K = test_keccak and sg = "replicate 32 17 @ replicate 32 0x22"
      and v = 1]
    txack_requests_then_signs [where
      s = "run test_keccak test_sign [Init True chunked_tx test_node]" and tx = partial_ack
      and S = test_sign and K = test_keccak]
  unfolding awaiting_state
  by (simp add: initial_state_def final_ack_def partial_ack_def test_sign_def test_keccak_def
      chunk_request_def)

text \<open>The same alternative at the end of \<open>ethereum_signing_init\<close>.\<close>

lemma init_requests_or_signs:
  assumes "\<not> init_rejects msg"
  shows
   "(has_data_length msg \<and> b_size (data_initial_chunk msg) < data_length msg \<longrightarrow>
       ethereum_signing_init K S True msg node s =
         (init_hashed msg node s)\<lparr>
            data_left := data_length msg - b_size (data_initial_chunk msg),
            resp := zero_resp\<lparr>r_has_data_length := True,
               r_data_length := min (data_length msg - b_size (data_initial_chunk msg)) 1024\<rparr>,
            out := out (init_hashed msg node s) @
              [LayoutProgress
                 (1000 - 800 * (data_length msg - b_size (data_initial_chunk msg))
                    div data_length msg),
               MsgWrite (zero_resp\<lparr>r_has_data_length := True,
                 r_data_length :=
                   min (data_length msg - b_size (data_initial_chunk msg)) 1024\<rparr>)]\<rparr>) \<and>
    (\<not> (has_data_length msg \<and> b_size (data_initial_chunk msg) < data_length msg) \<longrightarrow>
       S (memcpy (privkey s) (private_key node) 32) (K (header_bytes msg)) = Some (sg, v) \<longrightarrow>
       ethereum_signing_init K S True msg node s =
         (init_hashed msg node s)\<lparr>signing := False, hash := K (header_bytes msg),
            sig := sg, privkey := replicate 32 0,
            resp := signature_result zero_resp sg v,
            out := out (init_hashed msg node s) @
              [LayoutProgress 1000, MsgWrite (signature_result zero_resp sg v),
               LayoutHome]\<rparr>)"
proof (intro conjI impI)
  assume "has_data_length msg \<and> b_size (data_initial_chunk msg) < data_length msg"
  then show "ethereum_signing_init K S True msg node s =
         (init_hashed msg node s)\<lparr>
            data_left := data_length msg - b_size (data_initial_chunk msg),
            resp := zero_resp\<lparr>r_has_data_length := True,
               r_data_length := min (data_length msg - b_size (data_initial_chunk msg)) 1024\<rparr>,
            out := out (init_hashed msg node s) @
              [LayoutProgress
                 (1000 - 800 * (data_length msg - b_size (data_initial_chunk msg))
                    div data_length msg),
               MsgWrite (zero_resp\<lparr>r_has_data_length := True,
                 r_data_length :=
                   min (data_length msg - b_size (data_initial_chunk msg)) 1024\<rparr>)]\<rparr>"
    by (simp add: init_accepted [OF assms] send_request_chunk_eq init_hashed_def min_def)
next
  assume no: "\<not> (has_data_length msg \<and> b_size (data_initial_chunk msg) < data_length msg)"
    and sg: "S (memcpy (privkey s) (private_key node) 32) (K (header_bytes msg)) = Some (sg, v)"
  have "ethereum_signing_init K S True msg node s =
      send_signature K S (init_hashed msg node s)"
    using no by (auto simp: init_accepted [OF assms])
  also have "\<dots> =
     (init_hashed msg node s)\<lparr>signing := False, hash := K (keccak_ctx (init_hashed msg node s)),
       sig := sg, privkey := replicate 32 0,
       resp := signature_result (resp (init_hashed msg node s)) sg v,
       out := out (init_hashed msg node s) @
          [LayoutProgress 1000,
           MsgWrite (signature_result (resp (init_hashed msg node s)) sg v), LayoutHome]\<rparr>"
    by (rule send_signature_ok) (use sg in \<open>simp_all add: init_hashed_def\<close>)
  finally show "ethereum_signing_init K S True msg node s =
         (init_hashed msg node s)\<lparr>signing := False, hash := K (header_bytes msg),
            sig := sg, privkey := replicate 32 0,
            resp := signature_result zero_resp sg v,
            out := out (init_hashed msg node s) @
              [LayoutProgress 1000, MsgWrite (signature_result zero_resp sg v),
               LayoutHome]\<rparr>"
    by (simp add: init_hashed_def)
qed

section \<open>An initial chunk without a declared length\<close>

lemma rlp_length_no_declared_length:
  "\<not> has_data_length msg \<Longrightarrow>
   rlp_length (msg\<lparr>has_data_initial_chunk := h, data_initial_chunk := c\<rparr>) = rlp_length msg"
  by (simp add: rlp_length_def)

text \<open>
  Claim C10.  When the message declares no payload length,
  \<open>ethereum_signing_init\<close> does the same whatever initial chunk the message
  carries; the payload is hashed as the single byte \<open>0x80\<close> after the list header
  and the five other fields; and when the user confirms and the signature primitive
  succeeds, the digest is taken over exactly these bytes and the signature response is
  sent.
\<close>

theorem undeclared_payload_chunk_ignored:
  assumes "\<not> has_data_length msg"
  shows
   "ethereum_signing_init K S button
        (msg\<lparr>has_data_initial_chunk := h, data_initial_chunk := c\<rparr>) node s =
      ethereum_signing_init K S button msg node s \<and>
    header_bytes msg =
      emitted (hash_rlp_list_length (rlp_length msg))
      @ field_bytes (has_nonce msg) (nonce msg)
      @ field_bytes (has_gas_price msg) (gas_price msg)
      @ field_bytes (has_gas_limit msg) (gas_limit msg)
      @ field_bytes (has_to msg) (to msg)
      @ field_bytes (has_value msg) (value_f msg)
      @ [0x80] \<and>
    (S (memcpy (privkey s) (private_key node) 32) (K (header_bytes msg)) = Some (sg, v) \<longrightarrow>
       keccak_ctx (ethereum_signing_init K S True msg node s) = header_bytes msg \<and>
       hash (ethereum_signing_init K S True msg node s) = K (header_bytes msg) \<and>
       out (ethereum_signing_init K S True msg node s) =
         out s @
         [ConfirmTx (if has_to msg then Some (b_bytes (to msg)) else None)
                    (if has_value msg then Some (b_bytes (value_f msg)) else None)
                    (if has_value msg then b_size (value_f msg) else 0),
          ButtonRequest, LayoutProgress 0, LayoutProgress 100, LayoutProgress 200,
          LayoutProgress 1000, MsgWrite (signature_result zero_resp sg v), LayoutHome])"
proof (intro conjI impI)
  show "ethereum_signing_init K S button
        (msg\<lparr>has_data_initial_chunk := h, data_initial_chunk := c\<rparr>) node s =
      ethereum_signing_init K S button msg node s"
    using assms
    by (simp add: ethereum_signing_init_def store_header_fields_eq header_bytes_def
        payload_bytes_def rlp_length_def layoutEthereumConfirmTx_def Let_def)
next
  show "header_bytes msg =
      emitted (hash_rlp_list_length (rlp_length msg))
      @ field_bytes (has_nonce msg) (nonce msg)
      @ field_bytes (has_gas_price msg) (gas_price msg)
      @ field_bytes (has_gas_limit msg) (gas_limit msg)
      @ field_bytes (has_to msg) (to msg)
      @ field_bytes (has_value msg) (value_f msg)
      @ [0x80]"
    using assms by (simp add: header_bytes_def payload_bytes_def)
next
  assume sg: "S (memcpy (privkey s) (private_key node) 32) (K (header_bytes msg)) = Some (sg, v)"
  have nr: "\<not> init_rejects msg" using assms by (simp add: init_rejects_def)
  have eq: "ethereum_signing_init K S True msg node s =
      send_signature K S (init_hashed msg node s)"
    using assms by (simp add: init_accepted [OF nr])
  have ok: "send_signature K S (init_hashed msg node s) =
     (init_hashed msg node s)\<lparr>signing := False, hash := K (keccak_ctx (init_hashed msg node s)),
       sig := sg, privkey := replicate 32 0,
       resp := signature_result (resp (init_hashed msg node s)) sg v,
       out := out (init_hashed msg node s) @
          [LayoutProgress 1000,
           MsgWrite (signature_result (resp (init_hashed msg node s)) sg v), LayoutHome]\<rparr>"
    by (rule send_signature_ok) (use sg in \<open>simp_all add: init_hashed_def\<close>)
  show "keccak_ctx (ethereum_signing_init K S True msg node s) = header_bytes msg"
    unfolding eq ok by (simp add: init_hashed_def)
  show "hash (ethereum_signing_init K S True msg node s) = K (header_bytes msg)"
    unfolding eq ok by (simp add: init_hashed_def)
  show "out (ethereum_signing_init K S True msg node s) =
         out s @
         [ConfirmTx (if has_to msg then Some (b_bytes (to msg)) else None)
                    (if has_value msg then Some (b_bytes (value_f msg)) else None)
                    (if has_value msg then b_size (value_f msg) else 0),
          ButtonRequest, LayoutProgress 0, LayoutProgress 100, LayoutProgress 200,
          LayoutProgress 1000, MsgWrite (signature_result zero_resp sg v), LayoutHome]"
    unfolding eq ok by (simp add: init_hashed_def)
qed

text \<open>Witness for C10: four payload bytes without a declared length leave the
  digest input at the list header and six bytes \<open>0x80\<close>.\<close>

theorem undeclared_payload_chunk_ignored_witness:
  "\<not> has_data_length blank_tx \<and>
   undeclared_tx =
     blank_tx\<lparr>has_data_initial_chunk := True,
              data_initial_chunk := \<lparr>b_size = 4, b_bytes = [0xde, 0xad, 0xbe, 0xef]\<rparr>\<rparr> \<and>
   test_sign (memcpy (privkey initial_state) (private_key test_node) 32)
     (test_keccak (header_bytes blank_tx)) = Some (replicate 32 7 @ replicate 32 0x22, 1) \<and>
   keccak_ctx (ethereum_signing_init test_keccak test_sign True undeclared_tx test_node
      initial_state) = [0xc6, 0x80, 0x80, 0x80, 0x80, 0x80, 0x80] \<and>
   out (ethereum_signing_init test_keccak test_sign True undeclared_tx test_node
      initial_state) =
     [ConfirmTx None None 0, ButtonRequest, LayoutProgress 0, LayoutProgress 100,
      LayoutProgress 200, LayoutProgress 1000,
      MsgWrite (signature_result zero_resp (replicate 32 7 @ replicate 32 0x22) 1),
      LayoutHome]"
  using undeclared_payload_chunk_ignored [where msg = blank_tx and K = test_keccak
      and S = test_sign and button = True and h = True
      and c = "\<lparr>b_size = 4, b_bytes = [0xde, 0xad, 0xbe, 0xef]\<rparr>" and node = test_node
      and s = initial_state and sg = "replicate 32 7 @ replicate 32 0x22" and v = 1]
  unfolding undeclared_tx_def header_bytes_blank
  by (simp add: test_sign_def test_keccak_def test_node_def memcpy_def initial_state_def
      blank_tx_def)

section \<open>Payload accounting\<close>

lemma txack_data_left:
  assumes "signing s" and "has_data_chunk tx" and "b_size (data_chunk tx) \<noteq> 0"
  shows "data_left (ethereum_signing_txack K S tx s) = data_left s - b_size (data_chunk tx)"
  using assms
  by (simp add: ethereum_signing_txack_def Let_def hash_data_def send_request_chunk_eq
      send_signature_def abort_active ethereum_signing_abort_def layoutHome_def
      layoutProgress_def fsm_sendFailure_def msg_write_def split: option.split prod.split)

text \<open>A chunk no longer than what is awaited lowers \<open>data_left\<close> strictly.\<close>

lemma txack_in_range_decreases:
  assumes "signing s" and "has_data_chunk tx" and "b_size (data_chunk tx) \<noteq> 0"
    and "b_size (data_chunk tx) \<le> data_left s"
  shows "data_left (ethereum_signing_txack K S tx s) < data_left s"
proof -
  have "unat (b_size (data_chunk tx)) \<noteq> 0" using assms(3) by (simp add: unat_eq_0)
  moreover have "unat (b_size (data_chunk tx)) \<le> unat (data_left s)"
    using assms(4) by (simp add: word_le_nat_alt)
  ultimately have "unat (data_left s - b_size (data_chunk tx)) < unat (data_left s)"
    by (simp add: unat_sub assms(4))
  then show ?thesis by (simp add: txack_data_left [OF assms(1-3)] word_less_nat_alt)
qed

text \<open>
  Claim C2 at a failing input.  With 6 payload bytes awaited, an acknowledgement
  carrying 8 bytes is accepted: all 8 bytes are hashed, \<open>data_left\<close> wraps around
  to \<open>0xFFFFFFFE\<close>, and the session stays active and requests another 1024
  bytes; no failure is reported.
\<close>

theorem txack_overrun_not_rejected:
  "run test_keccak test_sign [Init True chunked_tx test_node, TxAck overrun_ack] =
     initial_state\<lparr>signing := True, data_total := 10, data_left := 0xFFFFFFFE,
       resp := chunk_request 1024, privkey := replicate 32 0x22,
       keccak_ctx := [0xd0, 0x80, 0x80, 0x80, 0x80, 0x80, 0x8a, 0xde, 0xad, 0xbe, 0xef,
                      1, 2, 3, 4, 5, 6, 7, 8],
       out := [ConfirmTx None None 0, ButtonRequest, LayoutProgress 0, LayoutProgress 100,
               LayoutProgress 200, LayoutProgress 520, MsgWrite (chunk_request 6),
               LayoutProgress 3865471727, MsgWrite (chunk_request 1024)]\<rparr>"
proof -
  have e: "run test_keccak test_sign [Init True chunked_tx test_node, TxAck overrun_ack] =
        ethereum_signing_txack test_keccak test_sign overrun_ack
          (run test_keccak test_sign [Init True chunked_tx test_node])"
    using run_snoc [of test_keccak test_sign "[Init True chunked_tx test_node]"
        "TxAck overrun_ack"] by simp
  show ?thesis unfolding e awaiting_state
    by (simp add: ethereum_signing_txack_def Let_def hash_data_def send_request_chunk_eq
        initial_state_def overrun_ack_def chunk_request_def word_gt_0)
qed

section \<open>Further facts\<close>

lemma init_active_ok: "active_ok (ethereum_signing_init K S button msg node s)"
proof (cases "init_rejects msg")
  case True
  then show ?thesis by (simp add: init_rejected active_ok_def)
next
  case False
  show ?thesis
  proof (cases button)
    case True
    with False show ?thesis
      by (auto simp: init_accepted active_ok_def init_hashed_def send_request_chunk_eq)
  next
    case b: False
    with False show ?thesis by (simp add: init_cancelled active_ok_def)
  qed
qed

lemma txack_active_ok:
  assumes "active_ok s"
  shows "active_ok (ethereum_signing_txack K S tx s)"
  using assms
  by (simp add: ethereum_signing_txack_def active_ok_def Let_def fsm_sendFailure_def
      layoutHome_def hash_data_def send_request_chunk_eq)

lemma step_active_ok: "active_ok s \<Longrightarrow> active_ok (step K S s c)"
  by (cases c) (simp_all add: init_active_ok txack_active_ok, simp add: active_ok_def)

lemma foldl_active_ok: "active_ok s \<Longrightarrow> active_ok (foldl (step K S) s cs)"
  by (induction cs arbitrary: s) (simp_all add: step_active_ok)

lemma run_data_total: "signing (run K S cs) \<Longrightarrow> data_total (run K S cs) \<noteq> 0"
proof -
  have "active_ok (run K S cs)"
    unfolding run_def by (rule foldl_active_ok) (simp add: active_ok_def initial_state_def)
  then show "signing (run K S cs) \<Longrightarrow> data_total (run K S cs) \<noteq> 0"
    by (simp add: active_ok_def)
qed

section \<open>The payload field\<close>

text \<open>
  The payload field does not go through \<open>hash_rlp_field\<close>: stage 2 calls
  \<open>hash_rlp_length\<close> with the declared length and the first byte of the initial
  chunk, and then hashes the chunk without the test \<open>hash_rlp_field\<close> makes
  before hashing the body.
\<close>

lemma send_signature_keccak_ctx: "keccak_ctx (send_signature K S s) = keccak_ctx s"
  by (simp add: send_signature_def Let_def ethereum_signing_abort_def layoutHome_def
      layoutProgress_def fsm_sendFailure_def msg_write_def split: option.split prod.split)

lemma init_keccak_ctx_single_shot:
  assumes "\<not> init_rejects msg"
    and "\<not> (has_data_length msg \<and> b_size (data_initial_chunk msg) < data_length msg)"
  shows "keccak_ctx (run K S [Init True msg node]) = header_bytes msg"
  using assms run_snoc [of K S "[]" "Init True msg node"]
  by (auto simp: run_Nil init_accepted send_signature_keccak_ctx init_hashed_def)

lemma header_bytes_single_byte:
  "header_bytes single_byte_payload_tx = [0xc6, 0x80, 0x80, 0x80, 0x80, 0x80, 0x05, 0x05]"
  by (simp add: header_bytes_def field_bytes_def payload_bytes_def emitted_def rlp_length_def
      rlp_calculate_length_def hash_rlp_list_length_def hash_rlp_length_def hash_data_def
      initial_state_def single_byte_payload_tx_def blank_tx_def zero_bytes_def)

lemma header_bytes_zero_byte:
  "header_bytes zero_byte_payload_tx = [0xc6, 0x80, 0x80, 0x80, 0x80, 0x80, 0x80, 0x00]"
  by (simp add: header_bytes_def field_bytes_def payload_bytes_def emitted_def rlp_length_def
      rlp_calculate_length_def hash_rlp_list_length_def hash_rlp_length_def hash_data_def
      initial_state_def zero_byte_payload_tx_def blank_tx_def zero_bytes_def)

text \<open>
  Claim C4 at a failing input.  For a declared payload of the single byte \<open>0x05\<close>
  the counting pass counts one byte for the payload, \<open>rlp_calculate_length 1 0x05\<close>,
  so the total is 6 and the list header hashed is \<open>0xc6\<close>; the emission pass
  hashes two bytes for the payload, the byte as its own header and the byte again as
  the chunk, so seven bytes follow a header that announces six.
\<close>

theorem payload_counted_once_hashed_twice:
  "rlp_calculate_length 1 0x05 = 1 \<and>
   rlp_length single_byte_payload_tx = 6 \<and>
   keccak_ctx (run test_keccak test_sign [Init True single_byte_payload_tx test_node]) =
     [0xc6, 0x80, 0x80, 0x80, 0x80, 0x80, 0x05, 0x05] \<and>
   length (payload_bytes single_byte_payload_tx) = 2"
proof (intro conjI)
  show "rlp_calculate_length 1 0x05 = 1"
    by (simp add: rlp_calculate_length_def)
  show "rlp_length single_byte_payload_tx = 6"
    by (simp add: rlp_length_def rlp_calculate_length_def single_byte_payload_tx_def
        blank_tx_def)
  have "keccak_ctx (run test_keccak test_sign [Init True single_byte_payload_tx test_node]) =
      header_bytes single_byte_payload_tx"
    by (rule init_keccak_ctx_single_shot)
      (simp_all add: init_rejects_def single_byte_payload_tx_def blank_tx_def)
  then show "keccak_ctx
      (run test_keccak test_sign [Init True single_byte_payload_tx test_node]) =
     [0xc6, 0x80, 0x80, 0x80, 0x80, 0x80, 0x05, 0x05]"
    by (simp only: header_bytes_single_byte)
  show "length (payload_bytes single_byte_payload_tx) = 2"
    by (simp add: payload_bytes_def emitted_def hash_rlp_length_def hash_data_def
        initial_state_def single_byte_payload_tx_def blank_tx_def)
qed

text \<open>
  Claim C5 at a failing input.  The canonical encoding of the single byte \<open>0x00\<close>
  is \<open>0x80\<close> alone, and that of the single byte \<open>0x05\<close> is the byte itself.
  For a declared payload of the single byte \<open>0x00\<close> the session hashes
  \<open>0x80\<close> and then the body \<open>0x00\<close>; for the single byte \<open>0x05\<close> it
  hashes \<open>0x05\<close> twice.
\<close>

theorem payload_single_byte_not_canonical:
  "spec_field_encoding [0x00] = [0x80] \<and>
   payload_bytes zero_byte_payload_tx = [0x80, 0x00] \<and>
   keccak_ctx (run test_keccak test_sign [Init True zero_byte_payload_tx test_node]) =
     [0xc6, 0x80, 0x80, 0x80, 0x80, 0x80, 0x80, 0x00] \<and>
   spec_field_encoding [0x05] = [0x05] \<and>
   payload_bytes single_byte_payload_tx = [0x05, 0x05]"
proof (intro conjI)
  show "spec_field_encoding [0x00] = [0x80]" "spec_field_encoding [0x05] = [0x05]"
    by (simp_all add: spec_field_encoding_def)
  show "payload_bytes zero_byte_payload_tx = [0x80, 0x00]"
    by (simp add: payload_bytes_def emitted_def hash_rlp_length_def hash_data_def
        initial_state_def zero_byte_payload_tx_def blank_tx_def)
  show "payload_bytes single_byte_payload_tx = [0x05, 0x05]"
    by (simp add: payload_bytes_def emitted_def hash_rlp_length_def hash_data_def
        initial_state_def single_byte_payload_tx_def blank_tx_def)
  have "keccak_ctx (run test_keccak test_sign [Init True zero_byte_payload_tx test_node]) =
      header_bytes zero_byte_payload_tx"
    by (rule init_keccak_ctx_single_shot)
      (simp_all add: init_rejects_def zero_byte_payload_tx_def blank_tx_def)
  then show "keccak_ctx
      (run test_keccak test_sign [Init True zero_byte_payload_tx test_node]) =
     [0xc6, 0x80, 0x80, 0x80, 0x80, 0x80, 0x80, 0x00]"
    by (simp only: header_bytes_zero_byte)
qed

end
